theory Spec2Isabelle
  imports Complex_Main
begin

section \<open>Strings\<close>

text \<open>
  A Python string is the list of its code points. A literal of the source is written
  \<open>lit ''...''\<close>.

  The handlers use \<^verbatim>\<open>str.upper\<close>, \<^verbatim>\<open>str.lower\<close> and \<^verbatim>\<open>str.replace("/", "_")\<close>.
  Python converts case with the Unicode tables, one code point at a time, and a code point
  may become several (the sharp s, U+00DF, becomes \<^verbatim>\<open>SS\<close>). The tables are given here for the code
  points below 256 (Basic Latin and Latin-1 Supplement) and for the two images that leave
  that range: U+00B5 becomes U+039C (924) and U+00FF becomes U+0178 (376) in upper case,
  and these come back as U+03BC (956) and U+00FF in lower case. Other code points are outside
  the tables given here and are left as they are; no theorem below depends on them.
\<close>

type_synonym str = "nat list"

definition lit :: "string \<Rightarrow> str" where
  "lit s = map of_char s"

definition upper_cp :: "nat \<Rightarrow> str" where
  "upper_cp c =
     (if 97 \<le> c \<and> c \<le> 122 then [c - 32]
      else if c = 181 then [924]
      else if c = 223 then [83, 83]
      else if (224 \<le> c \<and> c \<le> 246) \<or> (248 \<le> c \<and> c \<le> 254) then [c - 32]
      else if c = 255 then [376]
      else [c])"

definition lower_cp :: "nat \<Rightarrow> str" where
  "lower_cp c =
     (if 65 \<le> c \<and> c \<le> 90 then [c + 32]
      else if (192 \<le> c \<and> c \<le> 214) \<or> (216 \<le> c \<and> c \<le> 222) then [c + 32]
      else if c = 924 then [956]
      else if c = 376 then [255]
      else [c])"

definition upper :: "str \<Rightarrow> str" where
  "upper s = concat (map upper_cp s)"

definition lower :: "str \<Rightarrow> str" where
  "lower s = concat (map lower_cp s)"

text \<open>\<^verbatim>\<open>s.replace(old, new)\<close> for patterns of one code point each.\<close>

definition replace :: "nat \<Rightarrow> nat \<Rightarrow> str \<Rightarrow> str" where
  "replace old new s = map (\<lambda>c. if c = old then new else c) s"

text \<open>
  The code points on which lowercasing after uppercasing is the same as lowercasing:
  all below 256 but U+00B5 (181) and U+00DF (223). Every ASCII string is of this kind.
\<close>

definition case_stable :: "str \<Rightarrow> bool" where
  "case_stable s = list_all (\<lambda>c. c < 256 \<and> c \<noteq> 181 \<and> c \<noteq> 223) s"

definition ascii :: "str \<Rightarrow> bool" where
  "ascii s = list_all (\<lambda>c. c < 128) s"

section \<open>Routing and table names\<close>

text \<open>
  The three routes are \<^verbatim>\<open>/price/{currency}\<close>, \<^verbatim>\<open>/price/history/{currency}\<close> and
  \<^verbatim>\<open>/delete/{currency}\<close>. A path parameter without a converter matches one non-empty
  path segment, so the value bound to \<^verbatim>\<open>currency\<close> is never empty and has no slash
  (code point 47).
\<close>

definition path_param :: "str \<Rightarrow> bool" where
  "path_param currency = (currency \<noteq> [] \<and> 47 \<notin> set currency)"

text \<open>
  Each handler starts with the same two lines,
  \<^verbatim>\<open>currency_symbol = f"{currency.upper()}/USDT"\<close> and
  \<^verbatim>\<open>table_name = currency_symbol.replace("/", "_").lower()\<close>;
  they are kept apart here, one pair of definitions for each handler.
\<close>

definition price_currency_symbol :: "str \<Rightarrow> str" where
  "price_currency_symbol currency = upper currency @ lit ''/USDT''"

definition price_table_name :: "str \<Rightarrow> str" where
  "price_table_name currency = lower (replace 47 95 (price_currency_symbol currency))"

definition price_history_currency_symbol :: "str \<Rightarrow> str" where
  "price_history_currency_symbol currency = upper currency @ lit ''/USDT''"

definition price_history_table_name :: "str \<Rightarrow> str" where
  "price_history_table_name currency =
     lower (replace 47 95 (price_history_currency_symbol currency))"

definition delete_table_currency_symbol :: "str \<Rightarrow> str" where
  "delete_table_currency_symbol currency = upper currency @ lit ''/USDT''"

definition delete_table_table_name :: "str \<Rightarrow> str" where
  "delete_table_table_name currency =
     lower (replace 47 95 (delete_table_currency_symbol currency))"

section \<open>Exceptions\<close>

text \<open>
  The exceptions the handlers can raise or meet, each with its message:
  \<^verbatim>\<open>HTTPException(status_code, detail)\<close>, \<^verbatim>\<open>ccxt.BaseError\<close>, \<^verbatim>\<open>psycopg2.Error\<close>,
  a plain \<^verbatim>\<open>Exception\<close>, \<^verbatim>\<open>TypeError\<close> and \<^verbatim>\<open>ValueError\<close>.
\<close>

datatype exn =
    HTTPException nat str
  | BaseError str
  | Psycopg2Error str
  | Exception str
  | TypeError str
  | ValueError str

fun str_of :: "exn \<Rightarrow> str" where
  "str_of (HTTPException status detail) = detail"
| "str_of (BaseError msg) = msg"
| "str_of (Psycopg2Error msg) = msg"
| "str_of (Exception msg) = msg"
| "str_of (TypeError msg) = msg"
| "str_of (ValueError msg) = msg"

section \<open>Dates and times\<close>

text \<open>
  \<^verbatim>\<open>datetime.fromtimestamp(x)\<close> without a time zone gives the local date and time of the
  server as a naive \<^verbatim>\<open>datetime\<close>; \<^verbatim>\<open>strftime('%Y-%m-%d %H:%M:%S')\<close> prints it without
  the microseconds. The local time is the civil (proleptic Gregorian) date and time of the
  POSIX seconds shifted by the zone's offset from UTC at that instant, which the
  environment gives. A year outside 1..9999 is a \<^verbatim>\<open>ValueError\<close>.
\<close>

record datetime =
  year :: nat
  month :: nat
  day :: nat
  hour :: nat
  minute :: nat
  second :: nat
  microsecond :: nat

definition is_leap :: "int \<Rightarrow> bool" where
  "is_leap y = (y mod 4 = 0 \<and> (y mod 100 \<noteq> 0 \<or> y mod 400 = 0))"

definition days_in_year :: "int \<Rightarrow> int" where
  "days_in_year y = (if is_leap y then 366 else 365)"

definition month_lengths :: "int \<Rightarrow> int list" where
  "month_lengths y = [31, if is_leap y then 29 else 28, 31, 30, 31, 30, 31, 31, 30, 31, 30, 31]"

text \<open>The year and the day of the year, \<open>n\<close> days after the first of January of year \<open>y\<close>.\<close>

function year_from :: "int \<Rightarrow> int \<Rightarrow> int \<times> int" where
  "year_from y n =
     (if n < 0 then year_from (y - 1) (n + days_in_year (y - 1))
      else if days_in_year y \<le> n then year_from (y + 1) (n - days_in_year y)
      else (y, n))"
  by pat_completeness auto
termination
  by (relation "measure (\<lambda>(y, n). if n < 0 then nat (- n) + 400 else nat n)")
     (auto simp add: days_in_year_def split: if_splits)

declare year_from.simps [simp del]

text \<open>The month and the day of the month, from the lengths of the months still to come.\<close>

fun month_from :: "int list \<Rightarrow> nat \<Rightarrow> int \<Rightarrow> nat \<times> nat" where
  "month_from [] m n = (m, nat n + 1)"
| "month_from (l # ls) m n =
     (if n < l then (m, nat n + 1) else month_from ls (m + 1) (n - l))"

text \<open>
  The civil date and time of a number of seconds since 1970-01-01 00:00:00. Four hundred
  Gregorian years are 146097 days, so the search for the year starts in the right
  400-year cycle.
\<close>

definition civil :: "int \<Rightarrow> int \<times> nat \<times> nat \<times> nat \<times> nat \<times> nat" where
  "civil secs =
     (let days = secs div 86400;
          (y, yday) = year_from (1970 + 400 * (days div 146097)) (days mod 146097);
          (m, d) = month_from (month_lengths y) 1 yday;
          sod = secs mod 86400
      in (y, m, d, nat (sod div 3600), nat (sod mod 3600 div 60), nat (sod mod 60)))"

fun str_nat :: "nat \<Rightarrow> str" where
  "str_nat n = (if n < 10 then [48 + n] else str_nat (n div 10) @ [48 + n mod 10])"

declare str_nat.simps [simp del]

definition str_int :: "int \<Rightarrow> str" where
  "str_int i = (if i < 0 then lit ''-'' @ str_nat (nat (- i)) else str_nat (nat i))"

definition zero_pad :: "nat \<Rightarrow> nat \<Rightarrow> str" where
  "zero_pad width n = replicate (width - length (str_nat n)) 48 @ str_nat n"

text \<open>\<^verbatim>\<open>t.strftime('%Y-%m-%d %H:%M:%S')\<close>.\<close>

definition strftime :: "datetime \<Rightarrow> str" where
  "strftime t =
     zero_pad 4 (year t) @ lit ''-'' @ zero_pad 2 (month t) @ lit ''-'' @ zero_pad 2 (day t)
     @ lit '' '' @ zero_pad 2 (hour t) @ lit '':'' @ zero_pad 2 (minute t) @ lit '':''
     @ zero_pad 2 (second t)"

text \<open>
  \<^verbatim>\<open>datetime.fromtimestamp(ts)\<close>: the whole seconds are the floor of \<open>ts\<close>, the fraction is
  rounded to microseconds, with a carry into the seconds when it rounds up to a whole one.
\<close>

definition fromtimestamp :: "(int \<Rightarrow> int) \<Rightarrow> real \<Rightarrow> exn + datetime" where
  "fromtimestamp utcoffset ts =
     (let whole = \<lfloor>ts\<rfloor>;
          us = round ((ts - of_int whole) * 1000000);
          secs = (if 1000000 \<le> us then whole + 1 else whole);
          us' = (if 1000000 \<le> us then us - 1000000 else us);
          (y, m, d, hh, mm, ss) = civil (secs + utcoffset secs)
      in if 1 \<le> y \<and> y \<le> 9999
         then Inr \<lparr>year = nat y, month = m, day = d, hour = hh, minute = mm, second = ss,
                   microsecond = nat us'\<rparr>
         else Inl (ValueError (lit ''year '' @ str_int y @ lit '' is out of range'')))"

section \<open>The store\<close>

text \<open>
  The database holds one table for each name, with the rows in the order of their
  insertion; a row is the \<^verbatim>\<open>date\<close> (a timestamp without time zone) and the \<^verbatim>\<open>value\<close>
  (a numeric; the \<^verbatim>\<open>id\<close> column is never read). A Python float is taken as a real number,
  and what \<^verbatim>\<open>float(v)\<close> reads back from the numeric column is the number that was stored.

  The server reads the text of a timestamp when a row is inserted. The program only ever
  sends the nineteen characters that \<open>strftime\<close> prints, so that is the one format
  read here; any other text, and a date that does not exist, is an error of the server.
\<close>

definition digit_val :: "nat \<Rightarrow> nat option" where
  "digit_val c = (if 48 \<le> c \<and> c \<le> 57 then Some (c - 48) else None)"

fun number_from :: "nat \<Rightarrow> str \<Rightarrow> nat option" where
  "number_from acc [] = Some acc"
| "number_from acc (c # cs) =
     (case digit_val c of None \<Rightarrow> None | Some v \<Rightarrow> number_from (10 * acc + v) cs)"

definition number :: "str \<Rightarrow> nat option" where
  "number s = (if s = [] then None else number_from 0 s)"

definition valid_fields :: "nat \<Rightarrow> nat \<Rightarrow> nat \<Rightarrow> nat \<Rightarrow> nat \<Rightarrow> nat \<Rightarrow> bool" where
  "valid_fields y m d hh mm ss =
     (1 \<le> y \<and> y \<le> 9999 \<and> 1 \<le> m \<and> m \<le> 12 \<and> 1 \<le> d
      \<and> int d \<le> month_lengths (int y) ! (m - 1) \<and> hh < 24 \<and> mm < 60 \<and> ss < 60)"


definition parse_timestamp :: "str \<Rightarrow> datetime option" where
  "parse_timestamp s =
     (if length s = 19 \<and> s ! 4 = 45 \<and> s ! 7 = 45 \<and> s ! 10 = 32 \<and> s ! 13 = 58 \<and> s ! 16 = 58
      then
        (case (number (take 4 s), number (take 2 (drop 5 s)), number (take 2 (drop 8 s)),
               number (take 2 (drop 11 s)), number (take 2 (drop 14 s)),
               number (take 2 (drop 17 s))) of
           (Some y, Some m, Some d, Some hh, Some mm, Some ss) \<Rightarrow>
             if valid_fields y m d hh mm ss
             then Some \<lparr>year = y, month = m, day = d, hour = hh, minute = mm, second = ss,
                        microsecond = 0\<rparr>
             else None
         | _ \<Rightarrow> None)
      else None)"

type_synonym row = "datetime \<times> real"

type_synonym tables = "str \<rightharpoonup> row list"

text \<open>What the program sends to the database, in the order of the calls.\<close>

datatype statement =
    Connect
  | Cursor
  | TableExist str
  | CreateTable str
  | Insert str str real
  | Commit
  | Select str
  | DropTable str

section \<open>The environment and the state\<close>

text \<open>
  The environment of one request: what the exchange answers for a symbol (\<open>Inl\<close> is the
  message of a \<^verbatim>\<open>ccxt.BaseError\<close>), the offset of the server's time zone from UTC in
  seconds at a given instant, the sections of the settings files by file name, and
  the error, if any, with which the database answers a statement.

  The state: the committed tables, the tables as the open connection sees them
  (\<open>None\<close> when no connection is open), the statements sent so far and the lines printed
  so far.
\<close>

record ticker =
  bid :: "real option"
  timestamp :: "int option"

record env =
  fetch :: "str \<Rightarrow> str + ticker"
  utcoffset :: "int \<Rightarrow> int"
  ini :: "str \<Rightarrow> (str \<times> (str \<times> str) list) list"
  db_error :: "statement \<Rightarrow> str option"

record world =
  db :: tables
  session :: "tables option"
  issued :: "statement list"
  stdout :: "str list"

type_synonym 'a io = "world \<Rightarrow> (exn + 'a) \<times> world"

definition return :: "'a \<Rightarrow> 'a io" where
  "return x w = (Inr x, w)"

definition raise :: "exn \<Rightarrow> 'a io" where
  "raise e w = (Inl e, w)"

definition lift :: "exn + 'a \<Rightarrow> 'a io" where
  "lift r w = (r, w)"

definition bind :: "'a io \<Rightarrow> ('a \<Rightarrow> 'b io) \<Rightarrow> 'b io" where
  "bind m f w = (case m w of (Inl e, w') \<Rightarrow> (Inl e, w') | (Inr x, w') \<Rightarrow> f x w')"

text \<open>
  \<^verbatim>\<open>try: m except ...: handler\<close>. The handler is \<open>None\<close> on an exception that the
  \<^verbatim>\<open>except\<close> clause does not name, which then goes on to the caller.
\<close>

definition try_except :: "'a io \<Rightarrow> (exn \<Rightarrow> 'a io option) \<Rightarrow> 'a io" where
  "try_except m handler w =
     (case m w of
        (Inl e, w') \<Rightarrow> (case handler e of None \<Rightarrow> (Inl e, w') | Some h \<Rightarrow> h w')
      | (Inr x, w') \<Rightarrow> (Inr x, w'))"

text \<open>\<^verbatim>\<open>try: m finally: cleanup\<close>.\<close>

definition try_finally :: "'a io \<Rightarrow> unit io \<Rightarrow> 'a io" where
  "try_finally m cleanup w =
     (case m w of (r, w') \<Rightarrow>
        (case cleanup w' of (Inl e, w'') \<Rightarrow> (Inl e, w'') | (Inr u, w'') \<Rightarrow> (r, w'')))"

definition print :: "str \<Rightarrow> unit io" where
  "print s w = (Inr (), w\<lparr>stdout := stdout w @ [s]\<rparr>)"

section \<open>config.py\<close>

definition config :: "env \<Rightarrow> str \<Rightarrow> str \<Rightarrow> exn + (str \<rightharpoonup> str)" where
  "config e filename section_name =
     (case map_of (ini e filename) section_name of
        Some params \<Rightarrow> Inr (foldl (\<lambda>db param. db(fst param \<mapsto> snd param)) Map.empty params)
      | None \<Rightarrow>
          Inl (Exception (lit ''Section '' @ section_name @ lit '' is not found in the ''
                 @ filename @ lit '' file.'')))"

section \<open>The database client\<close>

text \<open>
  Every call of the client sends its statement; the database answers with an error
  (\<^verbatim>\<open>psycopg2.Error\<close>) or carries the statement out on the tables the connection sees.
  \<^verbatim>\<open>commit\<close> makes them the committed tables; closing the connection drops what was not
  committed.
\<close>

definition send :: "env \<Rightarrow> statement \<Rightarrow> unit io" where
  "send e st w =
     (case db_error e st of
        Some msg \<Rightarrow> (Inl (Psycopg2Error msg), w\<lparr>issued := issued w @ [st]\<rparr>)
      | None \<Rightarrow> (Inr (), w\<lparr>issued := issued w @ [st]\<rparr>))"

definition on_session :: "(tables \<Rightarrow> exn + 'a \<times> tables) \<Rightarrow> 'a io" where
  "on_session f w =
     (case session w of
        None \<Rightarrow> (Inl (Psycopg2Error (lit ''connection already closed'')), w)
      | Some t \<Rightarrow>
          (case f t of Inl e \<Rightarrow> (Inl e, w) | Inr (x, t') \<Rightarrow> (Inr x, w\<lparr>session := Some t'\<rparr>)))"

definition psycopg2_connect :: "env \<Rightarrow> (str \<rightharpoonup> str) \<Rightarrow> unit io" where
  "psycopg2_connect e params =
     bind (send e Connect) (\<lambda>_ w. (Inr (), w\<lparr>session := Some (db w)\<rparr>))"

definition cursor :: "env \<Rightarrow> unit io" where
  "cursor e = bind (send e Cursor) (\<lambda>_. on_session (\<lambda>t. Inr ((), t)))"

definition commit :: "env \<Rightarrow> unit io" where
  "commit e =
     bind (send e Commit) (\<lambda>_ w.
       case session w of
         None \<Rightarrow> (Inl (Psycopg2Error (lit ''connection already closed'')), w)
       | Some t \<Rightarrow> (Inr (), w\<lparr>db := t\<rparr>))"

text \<open>\<^verbatim>\<open>if cursor: cursor.close()\<close> and \<^verbatim>\<open>if connection: connection.close()\<close>.\<close>

definition close :: "unit io" where
  "close w = (Inr (), w\<lparr>session := None\<rparr>)"

section \<open>main.py\<close>

definition connect :: "env \<Rightarrow> unit io" where
  "connect e =
     bind (lift (config e (lit ''database.ini'') (lit ''postgresql''))) (\<lambda>params.
     bind (print (lit ''Connecting to postgreSQL datatbase...'')) (\<lambda>_.
     psycopg2_connect e params))"

definition table_exist :: "env \<Rightarrow> str \<Rightarrow> bool io" where
  "table_exist e table_name =
     bind (send e (TableExist table_name)) (\<lambda>_.
     on_session (\<lambda>t. Inr (t table_name \<noteq> None, t)))"

definition create_table :: "env \<Rightarrow> str \<Rightarrow> unit io" where
  "create_table e table_name =
     bind (send e (CreateTable table_name)) (\<lambda>_.
     on_session (\<lambda>t.
       if t table_name \<noteq> None
       then Inl (Psycopg2Error (lit ''relation '' @ [34] @ table_name @ [34]
                   @ lit '' already exists''))
       else Inr ((), t(table_name \<mapsto> []))))"

definition insert_data_to_table :: "env \<Rightarrow> str \<Rightarrow> str \<Rightarrow> real \<Rightarrow> unit io" where
  "insert_data_to_table e table_name date last_bid_price =
     bind (send e (Insert table_name date last_bid_price)) (\<lambda>_.
     bind (on_session (\<lambda>t.
       case t table_name of
         None \<Rightarrow>
           Inl (Psycopg2Error (lit ''relation '' @ [34] @ table_name @ [34]
                  @ lit '' does not exist''))
       | Some rows \<Rightarrow>
           (case parse_timestamp date of
              None \<Rightarrow>
                Inl (Psycopg2Error
                  (lit ''invalid input syntax for type timestamp: '' @ [34] @ date @ [34]))
            | Some t' \<Rightarrow> Inr ((), t(table_name \<mapsto> rows @ [(t', last_bid_price)]))))) (\<lambda>_.
     bind (commit e) (\<lambda>_.
     print (lit ''Record inserted successfully.''))))"

text \<open>
  The dictionary comprehension of \<^verbatim>\<open>get_history_prices\<close> stores the rows one after the
  other under their formatted date, so a later row replaces an earlier one with the same key.
\<close>

definition get_history_prices :: "env \<Rightarrow> str \<Rightarrow> (str \<rightharpoonup> real) io" where
  "get_history_prices e table_name =
     bind (send e (Select table_name)) (\<lambda>_.
     bind (on_session (\<lambda>t.
       case t table_name of
         None \<Rightarrow>
           Inl (Psycopg2Error (lit ''relation '' @ [34] @ table_name @ [34]
                  @ lit '' does not exist''))
       | Some rows \<Rightarrow> Inr (rows, t))) (\<lambda>records.
     return (foldl (\<lambda>d (t, v). d(strftime t \<mapsto> v)) Map.empty records)))"

definition delete_table_from_db :: "env \<Rightarrow> str \<Rightarrow> unit io" where
  "delete_table_from_db e table_name =
     bind (send e (DropTable table_name)) (\<lambda>_.
     bind (on_session (\<lambda>t. Inr ((), t(table_name := None)))) (\<lambda>_.
     bind (commit e) (\<lambda>_.
     print (lit ''Table '' @ [39] @ table_name @ [39] @ lit '' deleted successfully.''))))"

definition fetch_ticker :: "env \<Rightarrow> str \<Rightarrow> ticker io" where
  "fetch_ticker e symbol =
     lift (case fetch e symbol of Inl msg \<Rightarrow> Inl (BaseError msg) | Inr t \<Rightarrow> Inr t)"

text \<open>
  \<^verbatim>\<open>except ccxt.BaseError as e: raise HTTPException(status_code=400, detail=...)\<close>,
  the clause that ends each of the three handlers.
\<close>

definition except_ccxt :: "exn \<Rightarrow> 'a io option" where
  "except_ccxt error =
     (case error of
        BaseError msg \<Rightarrow>
          Some (raise (HTTPException 400 (lit ''An error occurred with KuCoin API: '' @ msg)))
      | _ \<Rightarrow> None)"

text \<open>\<^verbatim>\<open>ticker.get("timestamp")/1_000\<close>: dividing \<^verbatim>\<open>None\<close> is a \<^verbatim>\<open>TypeError\<close>.\<close>

definition divide_by_1000 :: "int option \<Rightarrow> exn + real" where
  "divide_by_1000 x =
     (case x of
        None \<Rightarrow>
          Inl (TypeError (lit ''unsupported operand type(s) for /: '' @ [39] @ lit ''NoneType''
                 @ [39] @ lit '' and '' @ [39] @ lit ''int'' @ [39]))
      | Some t \<Rightarrow> Inr (real_of_int t / 1000))"

record price_response =
  r_currency :: str
  r_last_bid_price :: real
  r_time :: str

definition price :: "env \<Rightarrow> str \<Rightarrow> price_response io" where
  "price e currency =
     (let currency_symbol = price_currency_symbol currency;
          table_name = price_table_name currency
      in try_except
           (bind (fetch_ticker e currency_symbol) (\<lambda>ticker.
            let last_bid_price = bid ticker in
            bind (lift (divide_by_1000 (timestamp ticker))) (\<lambda>timestamp_seconds.
            bind (lift (fromtimestamp (utcoffset e) timestamp_seconds)) (\<lambda>t.
            let date = strftime t in
            case last_bid_price of
              None \<Rightarrow>
                raise (HTTPException 400
                         (lit ''Could not find bid price for '' @ currency_symbol))
            | Some p \<Rightarrow>
                bind (try_finally
                        (try_except
                           (bind (connect e) (\<lambda>_.
                            bind (cursor e) (\<lambda>_.
                            bind (table_exist e table_name) (\<lambda>exist.
                            bind (if \<not> exist then create_table e table_name else return ()) (\<lambda>_.
                            insert_data_to_table e table_name date p)))))
                           (\<lambda>error. Some
                              (print (lit ''Error while inserting into PostgreSQL: ''
                                        @ str_of error))))
                        close) (\<lambda>_.
                return \<lparr>r_currency = currency, r_last_bid_price = p, r_time = date\<rparr>)))))
           except_ccxt)"



section \<open>Conditions and sample environments\<close>



definition world0 :: world where
  "world0 = \<lparr>db = Map.empty, session = None, issued = [], stdout = []\<rparr>"

definition ini_ok :: "str \<Rightarrow> (str \<times> (str \<times> str) list) list" where
  "ini_ok filename =
     (if filename = lit ''database.ini''
      then [(lit ''postgresql'', [(lit ''host'', lit ''localhost''), (lit ''database'', lit ''prices'')])]
      else [])"

definition env_ok :: env where
  "env_ok = \<lparr>fetch = (\<lambda>symbol. Inr \<lparr>bid = Some 50000.5, timestamp = Some 86400123\<rparr>),
             utcoffset = (\<lambda>secs. 0), ini = ini_ok, db_error = (\<lambda>st. None)\<rparr>"

definition env_db_down :: env where
  "env_db_down = env_ok\<lparr>db_error := (\<lambda>st. Some (lit ''connection refused''))\<rparr>"

definition env_plus_1h :: env where
  "env_plus_1h = env_ok\<lparr>utcoffset := (\<lambda>secs. 3600)\<rparr>"

definition env_no_bid :: env where
  "env_no_bid = env_ok\<lparr>fetch := (\<lambda>symbol. Inr \<lparr>bid = None, timestamp = Some 86400123\<rparr>)\<rparr>"

definition env_no_timestamp :: env where
  "env_no_timestamp = env_ok\<lparr>fetch := (\<lambda>symbol. Inr \<lparr>bid = None, timestamp = None\<rparr>)\<rparr>"

definition env_year_10000 :: env where
  "env_year_10000 =
     env_ok\<lparr>fetch := (\<lambda>symbol. Inr \<lparr>bid = Some 50000.5, timestamp = Some 253402300800000\<rparr>)\<rparr>"

definition env_year_10000_no_bid :: env where
  "env_year_10000_no_bid =
     env_ok\<lparr>fetch := (\<lambda>symbol. Inr \<lparr>bid = None, timestamp = Some 253402300800000\<rparr>)\<rparr>"

definition t_sample :: datetime where
  "t_sample = \<lparr>year = 1970, month = 1, day = 2, hour = 0, minute = 0, second = 0,
                microsecond = 123000\<rparr>"


section \<open>Facts about the string functions\<close>

lemma lower_upper_cp:
  assumes "c < 256" and "c \<noteq> 181" and "c \<noteq> 223"
  shows "lower (upper_cp c) = lower_cp c"
proof -
  consider "97 \<le> c \<and> c \<le> 122" | "(224 \<le> c \<and> c \<le> 246) \<or> (248 \<le> c \<and> c \<le> 254)"
    | "c = 255" | "c < 97 \<or> (122 < c \<and> c < 224) \<or> c = 247"
    using assms by linarith
  then show ?thesis
  proof cases
    case 1
    then have "upper_cp c = [c - 32]" "65 \<le> c - 32" "c - 32 \<le> 90" "c - 32 + 32 = c"
      by (simp_all add: upper_cp_def) linarith+
    moreover from 1 have "lower_cp c = [c]" by (simp add: lower_cp_def)
    ultimately show ?thesis by (simp add: lower_def lower_cp_def)
  next
    case 2
    then have u: "upper_cp c = [c - 32]" by (auto simp add: upper_cp_def)
    from 2 have r: "(192 \<le> c - 32 \<and> c - 32 \<le> 214) \<or> (216 \<le> c - 32 \<and> c - 32 \<le> 222)"
      "\<not> (65 \<le> c - 32 \<and> c - 32 \<le> 90)" "c - 32 + 32 = c"
      by linarith+
    from 2 have "lower_cp c = [c]" by (auto simp add: lower_cp_def)
    with u r show ?thesis by (simp add: lower_def lower_cp_def)
  next
    case 3
    then show ?thesis by (simp add: lower_def lower_cp_def upper_cp_def)
  next
    case 4
    with assms have "upper_cp c = [c]" by (auto simp add: upper_cp_def)
    then show ?thesis by (simp add: lower_def)
  qed
qed

lemma upper_cp_no_slash: "c \<noteq> 47 \<Longrightarrow> 47 \<notin> set (upper_cp c)"
  by (auto simp add: upper_cp_def)

lemma upper_no_slash: "47 \<notin> set s \<Longrightarrow> 47 \<notin> set (upper s)"
  by (induction s) (auto simp add: upper_def dest: upper_cp_no_slash)

lemma replace_absent: "old \<notin> set s \<Longrightarrow> replace old new s = s"
  by (induction s) (auto simp add: replace_def)

lemma lower_append: "lower (a @ b) = lower a @ lower b"
  by (simp add: lower_def)

lemma lower_upper: "case_stable s \<Longrightarrow> lower (upper s) = lower s"
proof (induction s)
  case Nil
  then show ?case by (simp add: lower_def upper_def)
next
  case (Cons c s)
  then have c: "c < 256" "c \<noteq> 181" "c \<noteq> 223" and s: "case_stable s"
    by (simp_all add: case_stable_def)
  have "lower (upper (c # s)) = lower (upper_cp c) @ lower (upper s)"
    by (simp add: upper_def lower_append)
  also have "\<dots> = lower_cp c @ lower s"
    by (simp add: lower_upper_cp [OF c] Cons.IH [OF s])
  finally show ?case by (simp add: lower_def)
qed

lemma ascii_case_stable: "ascii s \<Longrightarrow> case_stable s"
  by (induction s) (auto simp add: ascii_def case_stable_def)

lemma suffix_names:
  "replace 47 95 (lit ''/USDT'') = lit ''_USDT''" "lower (lit ''_USDT'') = lit ''_usdt''"
  by (simp_all add: replace_def lower_def lower_cp_def lit_def)

lemma derived_name:
  assumes "47 \<notin> set s"
  shows "lower (replace 47 95 (upper s @ lit ''/USDT'')) = lower (upper s) @ lit ''_usdt''"
proof -
  have "replace 47 95 (upper s @ lit ''/USDT'')
      = replace 47 95 (upper s) @ replace 47 95 (lit ''/USDT'')"
    by (simp add: replace_def)
  also have "\<dots> = upper s @ lit ''_USDT''"
    by (simp add: replace_absent [OF upper_no_slash [OF assms]] suffix_names)
  finally show ?thesis by (simp add: lower_append suffix_names)
qed

section \<open>Facts about dates and times\<close>


lemma ms_floor: "\<lfloor>real_of_int t / 1000\<rfloor> = t div 1000"
  using floor_divide_of_int_eq [of t 1000, where ?'a = real] by simp

lemma ms_frac: "(real_of_int t / 1000 - of_int (t div 1000)) * 1000000 = of_int ((t mod 1000) * 1000)"
proof -
  have "t = 1000 * (t div 1000) + t mod 1000" by simp
  then have "real_of_int t = real_of_int (1000 * (t div 1000) + t mod 1000)"
    by (rule arg_cong)
  then have e: "real_of_int t = 1000 * real_of_int (t div 1000) + real_of_int (t mod 1000)"
    by (simp only: of_int_add of_int_mult of_int_numeral)
  show ?thesis
    by (subst e) (simp add: field_simps)
qed

lemma fromtimestamp_ms:
  "fromtimestamp off (real_of_int t / 1000) =
     (case civil (t div 1000 + off (t div 1000)) of (y, m, d, hh, mm, ss) \<Rightarrow>
        if 1 \<le> y \<and> y \<le> 9999
        then Inr \<lparr>year = nat y, month = m, day = d, hour = hh, minute = mm, second = ss,
                  microsecond = nat ((t mod 1000) * 1000)\<rparr>
        else Inl (ValueError (lit ''year '' @ str_int y @ lit '' is out of range'')))"
proof -
  have lt: "\<not> 1000000 \<le> (t mod 1000) * 1000"
    using pos_mod_bound [of 1000 t] by simp
  have r: "round ((real_of_int t / 1000 - of_int (t div 1000)) * 1000000) = (t mod 1000) * 1000"
    unfolding ms_frac by (rule round_of_int)
  show ?thesis
    unfolding fromtimestamp_def Let_def ms_floor r if_not_P [OF lt] by (rule refl)
qed

























section \<open>Facts about the handlers\<close>


lemmas io_defs = bind_def return_def raise_def lift_def try_except_def try_finally_def
  print_def send_def on_session_def psycopg2_connect_def cursor_def commit_def close_def
  connect_def table_exist_def create_table_def insert_data_to_table_def
  get_history_prices_def delete_table_from_db_def fetch_ticker_def except_ccxt_def
  divide_by_1000_def config_def







lemma price_api_error:
  assumes "fetch e (price_currency_symbol X) = Inl msg"
  shows "price e X w =
     (Inl (HTTPException 400 (lit ''An error occurred with KuCoin API: '' @ msg)), w)"
  using assms by (simp add: price_def Let_def io_defs)

lemma price_no_timestamp:
  assumes "fetch e (price_currency_symbol X) = Inr tk" and "timestamp tk = None"
  shows "price e X w =
     (Inl (TypeError (lit ''unsupported operand type(s) for /: '' @ [39] @ lit ''NoneType''
        @ [39] @ lit '' and '' @ [39] @ lit ''int'' @ [39])), w)"
  using assms by (simp add: price_def Let_def io_defs)

lemma price_bad_timestamp:
  assumes "fetch e (price_currency_symbol X) = Inr tk" and "timestamp tk = Some ms"
    and "fromtimestamp (utcoffset e) (real_of_int ms / 1000) = Inl err"
  shows "price e X w = (case err of BaseError msg \<Rightarrow>
      Inl (HTTPException 400 (lit ''An error occurred with KuCoin API: '' @ msg)) | _ \<Rightarrow> Inl err, w)"
  using assms by (simp add: price_def Let_def io_defs split: exn.splits)

lemma price_no_bid:
  assumes "fetch e (price_currency_symbol X) = Inr tk" and "timestamp tk = Some ms"
    and "fromtimestamp (utcoffset e) (real_of_int ms / 1000) = Inr t" and "bid tk = None"
  shows "price e X w =
     (Inl (HTTPException 400 (lit ''Could not find bid price for '' @ price_currency_symbol X)), w)"
  using assms by (simp add: price_def Let_def io_defs)

lemma swallow:
  fixes m :: "unit io"
  shows "fst (try_finally (try_except m (\<lambda>error. Some (print (f error)))) close w) = Inr ()"
  by (cases "m w"; cases "fst (m w)") (simp_all add: io_defs)

lemma price_returns:
  assumes "fetch e (price_currency_symbol X) = Inr tk" and "timestamp tk = Some ms"
    and "fromtimestamp (utcoffset e) (real_of_int ms / 1000) = Inr t" and "bid tk = Some p"
  shows "fst (price e X w) = Inr \<lparr>r_currency = X, r_last_bid_price = p, r_time = strftime t\<rparr>"
proof -
  let ?body = "bind (connect e) (\<lambda>_.
                 bind (cursor e) (\<lambda>_.
                 bind (table_exist e (price_table_name X)) (\<lambda>exist.
                 bind (if \<not> exist then create_table e (price_table_name X) else return ()) (\<lambda>_.
                 insert_data_to_table e (price_table_name X) (strftime t) p))))"
  let ?block = "try_finally (try_except ?body
        (\<lambda>error. Some (print (lit ''Error while inserting into PostgreSQL: '' @ str_of error)))) close"
  have s: "fst (?block w) = Inr ()" by (rule swallow)
  obtain w' where b: "?block w = (Inr (), w')"
    using s by (cases "?block w") simp
  have "price e X w =
      (Inr \<lparr>r_currency = X, r_last_bid_price = p, r_time = strftime t\<rparr>, w')"
    using assms b
    by (simp add: price_def Let_def bind_def return_def raise_def lift_def try_except_def
        fetch_ticker_def divide_by_1000_def)
  then show ?thesis by simp
qed


























section \<open>The sample environments, evaluated\<close>

lemmas calendar_defs = civil_def year_from.simps days_in_year_def is_leap_def month_lengths_def

lemma civil_sample: "civil 86400 = (1970, 1, 2, 0, 0, 0)"
  by (simp add: calendar_defs)




lemma fromtimestamp_sample:
  "fromtimestamp (\<lambda>secs. 0) (real_of_int 86400123 / 1000) = Inr t_sample"
  unfolding fromtimestamp_ms by (simp add: civil_sample t_sample_def)








section \<open>The formatted time\<close>



section \<open>A database that refuses the connection\<close>






section \<open>A request after another\<close>





section \<open>Table names\<close>

text \<open>
  C2, as it stands, fails at the path parameter made of the one code point U+00DF (the
  sharp s): its upper case is \<open>SS\<close>, so all three handlers derive \<open>ss_usdt\<close>, while the
  lower case of the parameter followed by \<open>_usdt\<close> keeps the sharp s.
\<close>

theorem table_name_sharp_s:
  "path_param [223]
   \<and> price_table_name [223] = lit ''ss_usdt''
   \<and> price_history_table_name [223] = lit ''ss_usdt''
   \<and> delete_table_table_name [223] = lit ''ss_usdt''
   \<and> lower [223] @ lit ''_usdt'' = [223] @ lit ''_usdt''
   \<and> price_table_name [223] \<noteq> lower [223] @ lit ''_usdt''"
  by (simp add: path_param_def price_table_name_def price_currency_symbol_def
      price_history_table_name_def price_history_currency_symbol_def
      delete_table_table_name_def delete_table_currency_symbol_def
      upper_def upper_cp_def lower_def lower_cp_def replace_def lit_def)

text \<open>
  C2, amended. For every path parameter \<open>X\<close> (non-empty, no slash) whose code points are
  below 256 and are neither U+00B5 nor U+00DF, in particular for every ASCII \<open>X\<close>, each of
  the three handlers derives the table name \<open>lower X @ lit ''_usdt''\<close>, which is the
  symbol \<open>upper X @ lit ''/USDT''\<close> with the slash replaced by an underscore and the whole
  string lowercased; the three handlers derive the same name for the same \<open>X\<close>.
\<close>

theorem table_name_is_lowercase_usdt:
  assumes "path_param X" and "case_stable X"
  shows "price_table_name X = lower X @ lit ''_usdt''
       \<and> price_history_table_name X = lower X @ lit ''_usdt''
       \<and> delete_table_table_name X = lower X @ lit ''_usdt''
       \<and> lower X @ lit ''_usdt'' = lower (replace 47 95 (upper X @ lit ''/USDT''))
       \<and> price_table_name X = price_history_table_name X
       \<and> price_history_table_name X = delete_table_table_name X"
proof -
  from assms(1) have ns: "47 \<notin> set X"
    by (simp add: path_param_def)
  show ?thesis
    by (simp add: price_table_name_def price_currency_symbol_def
        price_history_table_name_def price_history_currency_symbol_def
        delete_table_table_name_def delete_table_currency_symbol_def
        derived_name [OF ns] lower_upper [OF assms(2)])
qed

theorem table_name_is_lowercase_usdt_witness:
  "path_param (lit ''Btc'') \<and> case_stable (lit ''Btc'')
   \<and> price_table_name (lit ''Btc'') = lit ''btc_usdt''
   \<and> price_history_table_name (lit ''Btc'') = lit ''btc_usdt''
   \<and> delete_table_table_name (lit ''Btc'') = lit ''btc_usdt''"
proof -
  have p: "path_param (lit ''Btc'')" by (simp add: path_param_def lit_def)
  have a: "case_stable (lit ''Btc'')" by (simp add: case_stable_def lit_def)
  have l: "lower (lit ''Btc'') @ lit ''_usdt'' = lit ''btc_usdt''"
    by (simp add: lower_def lower_cp_def lit_def)
  show ?thesis
    using table_name_is_lowercase_usdt [OF p a] p a by (simp add: l)
qed

section \<open>The price handler\<close>

lemma fetch_samples:
  "fetch env_ok s = Inr \<lparr>bid = Some 50000.5, timestamp = Some 86400123\<rparr>"
  "fetch env_db_down s = Inr \<lparr>bid = Some 50000.5, timestamp = Some 86400123\<rparr>"
  "fetch env_plus_1h s = Inr \<lparr>bid = Some 50000.5, timestamp = Some 86400123\<rparr>"
  "fetch env_no_bid s = Inr \<lparr>bid = None, timestamp = Some 86400123\<rparr>"
  "fetch env_no_timestamp s = Inr \<lparr>bid = None, timestamp = None\<rparr>"
  "fetch env_year_10000 s = Inr \<lparr>bid = Some 50000.5, timestamp = Some 253402300800000\<rparr>"
  "fetch env_year_10000_no_bid s = Inr \<lparr>bid = None, timestamp = Some 253402300800000\<rparr>"
  by (simp_all add: env_ok_def env_db_down_def env_plus_1h_def env_no_bid_def
      env_no_timestamp_def env_year_10000_def env_year_10000_no_bid_def)

lemma utcoffset_samples:
  "utcoffset env_ok = (\<lambda>secs. 0)" "utcoffset env_db_down = (\<lambda>secs. 0)"
  "utcoffset env_plus_1h = (\<lambda>secs. 3600)" "utcoffset env_no_bid = (\<lambda>secs. 0)"
  "utcoffset env_no_timestamp = (\<lambda>secs. 0)" "utcoffset env_year_10000 = (\<lambda>secs. 0)"
  "utcoffset env_year_10000_no_bid = (\<lambda>secs. 0)"
  by (simp_all add: env_ok_def env_db_down_def env_plus_1h_def env_no_bid_def
      env_no_timestamp_def env_year_10000_def env_year_10000_no_bid_def)







text \<open>
  C9. Whenever \<^verbatim>\<open>GET /price/{X}\<close> raises the HTTP 400 for the missing bid price, the state
  after the request is the state before it: no statement was sent to the database (so no
  connection was opened), nothing was printed, and the committed tables are unchanged.
\<close>

theorem no_bid_leaves_store_unchanged:
  assumes "fst (price e X w)
     = Inl (HTTPException 400 (lit ''Could not find bid price for '' @ price_currency_symbol X))"
  shows "snd (price e X w) = w \<and> db (snd (price e X w)) = db w
       \<and> issued (snd (price e X w)) = issued w"
proof -
  have "snd (price e X w) = w"
  proof (cases "fetch e (price_currency_symbol X)")
    case (Inl msg)
    then show ?thesis by (simp add: price_api_error)
  next
    case (Inr tk)
    show ?thesis
    proof (cases "timestamp tk")
      case None
      with Inr show ?thesis by (simp add: price_no_timestamp)
    next
      case (Some ms)
      show ?thesis
      proof (cases "fromtimestamp (utcoffset e) (real_of_int ms / 1000)")
        case (Inl err)
        from price_bad_timestamp [OF Inr Some Inl] show ?thesis by simp
      next
        case t: (Inr t)
        show ?thesis
        proof (cases "bid tk")
          case None
          from price_no_bid [OF Inr Some t None] show ?thesis by simp
        next
          case p: (Some p)
          from price_returns [OF Inr Some t p, of w] assms show ?thesis by simp
        qed
      qed
    qed
  qed
  then show ?thesis by simp
qed

theorem no_bid_leaves_store_unchanged_witness:
  "fst (price env_no_bid (lit ''btc'') world0)
     = Inl (HTTPException 400
         (lit ''Could not find bid price for '' @ price_currency_symbol (lit ''btc'')))
   \<and> snd (price env_no_bid (lit ''btc'') world0) = world0
   \<and> issued (snd (price env_no_bid (lit ''btc'') world0)) = []"
proof -
  have f: "fetch env_no_bid (price_currency_symbol (lit ''btc''))
      = Inr \<lparr>bid = None, timestamp = Some 86400123\<rparr>"
    by (rule fetch_samples)
  have t: "timestamp \<lparr>bid = None, timestamp = Some 86400123\<rparr> = Some 86400123" by simp
  have b: "bid \<lparr>bid = None, timestamp = Some 86400123\<rparr> = None" by simp
  have c: "fromtimestamp (utcoffset env_no_bid) (real_of_int 86400123 / 1000) = Inr t_sample"
    unfolding utcoffset_samples by (rule fromtimestamp_sample)
  have h: "fst (price env_no_bid (lit ''btc'') world0)
     = Inl (HTTPException 400
         (lit ''Could not find bid price for '' @ price_currency_symbol (lit ''btc'')))"
    using price_no_bid [OF f t c b, of world0] by simp
  from no_bid_leaves_store_unchanged [OF h] h show ?thesis by (simp add: world0_def)
qed

text \<open>
  C10. The timestamp is divided by 1000 before the bid price is looked at. For a ticker
  without a timestamp the handler ends in a \<^verbatim>\<open>TypeError\<close>, which is no
  \<^verbatim>\<open>HTTPException\<close>, whether the bid price is there or not, and leaves the state as it
  was; and whenever the handler returns a response, the ticker had a timestamp (and a bid
  price).
\<close>

theorem missing_timestamp_is_type_error:
  "(fetch e (price_currency_symbol X) = Inr tk \<and> timestamp tk = None \<longrightarrow>
      price e X w =
        (Inl (TypeError (lit ''unsupported operand type(s) for /: '' @ [39] @ lit ''NoneType''
           @ [39] @ lit '' and '' @ [39] @ lit ''int'' @ [39])), w)
      \<and> (\<forall>status detail. fst (price e X w) \<noteq> Inl (HTTPException status detail)))
   \<and> (fst (price e X w) = Inr r \<longrightarrow>
      (\<exists>tk ms p. fetch e (price_currency_symbol X) = Inr tk \<and> timestamp tk = Some ms
         \<and> bid tk = Some p))"
proof (intro conjI impI)
  assume a: "fetch e (price_currency_symbol X) = Inr tk \<and> timestamp tk = None"
  then show "price e X w =
        (Inl (TypeError (lit ''unsupported operand type(s) for /: '' @ [39] @ lit ''NoneType''
           @ [39] @ lit '' and '' @ [39] @ lit ''int'' @ [39])), w)"
    by (simp add: price_no_timestamp)
  from a show "\<forall>status detail. fst (price e X w) \<noteq> Inl (HTTPException status detail)"
    by (simp add: price_no_timestamp)
next
  assume r: "fst (price e X w) = Inr r"
  show "\<exists>tk ms p. fetch e (price_currency_symbol X) = Inr tk \<and> timestamp tk = Some ms
         \<and> bid tk = Some p"
  proof (cases "fetch e (price_currency_symbol X)")
    case (Inl msg)
    with r show ?thesis by (simp add: price_api_error)
  next
    case (Inr tk)
    show ?thesis
    proof (cases "timestamp tk")
      case None
      with Inr r show ?thesis by (simp add: price_no_timestamp)
    next
      case (Some ms)
      show ?thesis
      proof (cases "fromtimestamp (utcoffset e) (real_of_int ms / 1000)")
        case (Inl err)
        from price_bad_timestamp [OF Inr Some Inl, of w] r show ?thesis
          by (cases err) simp_all
      next
        case t: (Inr t)
        show ?thesis
        proof (cases "bid tk")
          case None
          from price_no_bid [OF Inr Some t None, of w] r show ?thesis by simp
        next
          case (Some p)
          with Inr \<open>timestamp tk = Some ms\<close> show ?thesis by blast
        qed
      qed
    qed
  qed
qed

theorem missing_timestamp_is_type_error_witness:
  "fetch env_no_timestamp (price_currency_symbol (lit ''btc''))
     = Inr \<lparr>bid = None, timestamp = None\<rparr>
   \<and> price env_no_timestamp (lit ''btc'') world0 =
       (Inl (TypeError (lit ''unsupported operand type(s) for /: '' @ [39] @ lit ''NoneType''
          @ [39] @ lit '' and '' @ [39] @ lit ''int'' @ [39])), world0)"
proof -
  have f: "fetch env_no_timestamp (price_currency_symbol (lit ''btc''))
     = Inr \<lparr>bid = None, timestamp = None\<rparr>"
    by (rule fetch_samples)
  from missing_timestamp_is_type_error
    [where e = env_no_timestamp and X = "lit ''btc''"
       and tk = "\<lparr>bid = None, timestamp = None\<rparr>" and w = world0] f
  show ?thesis by simp
qed




section \<open>The history and delete handlers\<close>













end
